theory Spec2Isabelle
  imports Complex_Main "HOL-Library.Word"
begin

section \<open>BlueST feature codecs: accelerometer, humidity, advertising data parser\<close>

text \<open>
  A shallow embedding of \<^verbatim>\<open>blue_st_sdk/features/feature_accelerometer.py\<close>,
  \<^verbatim>\<open>blue_st_sdk/features/feature_humidity.py\<close> and
  \<^verbatim>\<open>blue_st_sdk/advertising_data/ble_advertising_data_parser.py\<close>.

  Conventions of the embedding:
  \<^item> a Python integer is an \<open>int\<close>; a byte buffer is a list of 8-bit words;
  \<^item> a Python float is an exact real number or the not-a-number value; the rounding and
    the overflow of the binary64 format are not modelled (no value below needs them:
    \<open>500 / 10.0\<close> is exactly \<open>50.0\<close> in binary64 as well);
  \<^item> an exception is a value of the type \<open>error\<close>, returned as \<open>Inl\<close>;
  \<^item> every call of a numeric conversion is recorded: a computation returns its result
    together with the list of offsets at which \<open>LittleEndian.bytes_to_int16\<close> was
    called, in call order.
\<close>

subsection \<open>Values and errors\<close>

type_synonym byte = "8 word"

datatype py_float = Finite real | NaN

text \<open>The values a sample's data list holds: \<open>None\<close>, an integer or a float.\<close>

datatype py_value = PyNone | PyInt int | PyFloat py_float

datatype error =
    BlueSTInvalidDataException
  | OutOfRange
  | SampleLengthMismatch
  | IndexError
  | TypeError
  | NotImplementedError
  | MalformedAdvertisement

text \<open>Python's truth value of an object: \<open>None\<close>, \<open>0\<close> and \<open>0.0\<close> are false; not-a-number is true.\<close>

fun truthy :: "py_value \<Rightarrow> bool" where
  "truthy PyNone = False"
| "truthy (PyInt n) = (n \<noteq> 0)"
| "truthy (PyFloat (Finite r)) = (r \<noteq> 0)"
| "truthy (PyFloat NaN) = True"

text \<open>Python's \<open>float(v)\<close>: \<open>float(None)\<close> raises \<open>TypeError\<close>.\<close>

fun py_float_of :: "py_value \<Rightarrow> error + py_float" where
  "py_float_of PyNone = Inl TypeError"
| "py_float_of (PyInt n) = Inr (Finite (of_int n))"
| "py_float_of (PyFloat f) = Inr f"

text \<open>
  Python's \<open>xs[i]\<close> on a list: a negative index counts from the end, an index outside the
  list raises \<open>IndexError\<close>.
\<close>

definition getitem :: "'a list \<Rightarrow> int \<Rightarrow> error + 'a" where
  "getitem xs i =
     (if 0 \<le> i \<and> i < int (length xs) then Inr (xs ! nat i)
      else if i < 0 \<and> 0 \<le> int (length xs) + i then Inr (xs ! nat (int (length xs) + i))
      else Inl IndexError)"

subsection \<open>Computations that record their numeric conversion calls\<close>

type_synonym 'a traced = "(error + 'a) \<times> int list"

definition succeed :: "'a \<Rightarrow> 'a traced" where
  "succeed x = (Inr x, [])"

definition raise :: "error \<Rightarrow> 'a traced" where
  "raise e = (Inl e, [])"

definition lift :: "error + 'a \<Rightarrow> 'a traced" where
  "lift r = (r, [])"

text \<open>Sequencing: an exception of the first computation ends the whole one.\<close>

definition and_then :: "'a traced \<Rightarrow> ('a \<Rightarrow> 'b traced) \<Rightarrow> 'b traced" where
  "and_then m f =
     (case m of
        (Inl e, calls) \<Rightarrow> (Inl e, calls)
      | (Inr x, calls) \<Rightarrow> (case f x of (r, calls') \<Rightarrow> (r, calls @ calls')))"

subsection \<open>Field, Sample, ExtractedData\<close>

text \<open>
  Modelled from the spec: the enumeration \<open>FieldType\<close> and the class \<open>Field\<close>
  (\<^verbatim>\<open>blue_st_sdk/features/field.py\<close> is not among the sources).
\<close>

datatype FieldType = Int8 | UInt8 | Int16 | UInt16 | Int24 | UInt24 | Int32 | UInt32 | Float

text \<open>
  \<open>Field(name, unit, data_type, maximum, minimum)\<close>: the arguments are in the order in
  which the two features pass them.
\<close>

record field =
  field_name :: string
  field_unit :: string
  field_type :: FieldType
  field_maximum :: int
  field_minimum :: int

text \<open>
  A sample object. Its \<open>_data\<close> attribute is \<open>None\<close> or a list of values: the accessors
  below test both. An accessor's argument is \<open>None\<close> or a sample object, a
  \<open>sample option\<close>; a sample object itself counts as true.
\<close>

record sample =
  s_data :: "py_value list option"
  s_description :: "field list"
  s_timestamp :: int

record extracted_data =
  ed_sample :: sample
  ed_read_bytes :: int

text \<open>
  Modelled from the spec: the constructor of \<open>Sample\<close> (\<^verbatim>\<open>blue_st_sdk/feature.py\<close> is not
  among the sources). A sample pairs the decoded values with the field descriptors and a
  timestamp, and construction fails when the two sequences differ in length.
\<close>

definition Sample :: "py_value list \<Rightarrow> field list \<Rightarrow> int \<Rightarrow> error + sample" where
  "Sample data description timestamp =
     (if length data = length description
      then Inr \<lparr>s_data = Some data, s_description = description, s_timestamp = timestamp\<rparr>
      else Inl SampleLengthMismatch)"

text \<open>
  Modelled from the spec: \<open>ExtractedData(sample, read_bytes)\<close>, the pair of a sample and
  the number of bytes consumed (\<^verbatim>\<open>blue_st_sdk/feature.py\<close> is not among the sources).
\<close>

definition ExtractedData :: "sample \<Rightarrow> int \<Rightarrow> extracted_data" where
  "ExtractedData sample read_bytes = \<lparr>ed_sample = sample, ed_read_bytes = read_bytes\<rparr>"

subsection \<open>Numeric conversion\<close>

text \<open>
  Modelled from the spec: \<open>LittleEndian.bytes_to_int16\<close>
  (\<^verbatim>\<open>blue_st_sdk/utils/number_conversion.py\<close> is not among the sources). It reads two bytes
  at the offset in little-endian order (the least significant byte at the lowest offset)
  as a signed 16-bit integer, and fails with the out-of-range error when it is asked to
  read beyond the bounds of the buffer: when \<open>offset + 2 > len(buffer)\<close>, and also at a
  negative offset, which lies before the buffer.
\<close>

definition bytes_to_int16 :: "byte list \<Rightarrow> int \<Rightarrow> error + int" where
  "bytes_to_int16 data start =
     (if start < 0 \<or> int (length data) < start + 2 then Inl OutOfRange
      else Inr (sint (word_cat (data ! (nat start + 1)) (data ! nat start) :: 16 word)))"

text \<open>A call of the conversion, recorded with its offset.\<close>

definition call_bytes_to_int16 :: "byte list \<Rightarrow> int \<Rightarrow> int traced" where
  "call_bytes_to_int16 data start = (bytes_to_int16 data start, [start])"

subsection \<open>FeatureAccelerometer\<close>

definition accelerometer_FEATURE_UNIT :: string where
  "accelerometer_FEATURE_UNIT = ''mg''"

definition accelerometer_FEATURE_DATA_NAME :: "string list" where
  "accelerometer_FEATURE_DATA_NAME = [''X'', ''Y'', ''Z'']"

definition accelerometer_FEATURE_DATA_MAX :: int where
  "accelerometer_FEATURE_DATA_MAX = 2000"

definition accelerometer_FEATURE_DATA_MIN :: int where
  "accelerometer_FEATURE_DATA_MIN = - 2000"

definition accelerometer_DATA_LENGTH_BYTES :: int where
  "accelerometer_DATA_LENGTH_BYTES = 6"

definition X_INDEX :: int where
  "X_INDEX = 0"

definition Y_INDEX :: int where
  "Y_INDEX = 1"

definition Z_INDEX :: int where
  "Z_INDEX = 2"

definition FEATURE_X_FIELD :: field where
  "FEATURE_X_FIELD =
     \<lparr>field_name = accelerometer_FEATURE_DATA_NAME ! nat X_INDEX,
      field_unit = accelerometer_FEATURE_UNIT,
      field_type = Int16,
      field_maximum = accelerometer_FEATURE_DATA_MAX,
      field_minimum = accelerometer_FEATURE_DATA_MIN\<rparr>"

definition FEATURE_Y_FIELD :: field where
  "FEATURE_Y_FIELD =
     \<lparr>field_name = accelerometer_FEATURE_DATA_NAME ! nat Y_INDEX,
      field_unit = accelerometer_FEATURE_UNIT,
      field_type = Int16,
      field_maximum = accelerometer_FEATURE_DATA_MAX,
      field_minimum = accelerometer_FEATURE_DATA_MIN\<rparr>"

definition FEATURE_Z_FIELD :: field where
  "FEATURE_Z_FIELD =
     \<lparr>field_name = accelerometer_FEATURE_DATA_NAME ! nat Z_INDEX,
      field_unit = accelerometer_FEATURE_UNIT,
      field_type = Int16,
      field_maximum = accelerometer_FEATURE_DATA_MAX,
      field_minimum = accelerometer_FEATURE_DATA_MIN\<rparr>"

text \<open>
  Modelled from the spec: \<open>get_fields_description()\<close> of the base class \<open>Feature\<close>
  (\<^verbatim>\<open>blue_st_sdk/feature.py\<close> is not among the sources) returns the fields fixed at
  construction. The accelerometer's constructor hands over the X, Y and Z fields.
\<close>

definition accelerometer_fields_description :: "field list" where
  "accelerometer_fields_description = [FEATURE_X_FIELD, FEATURE_Y_FIELD, FEATURE_Z_FIELD]"

definition accelerometer_extract_data :: "int \<Rightarrow> byte list \<Rightarrow> int \<Rightarrow> extracted_data traced" where
  "accelerometer_extract_data timestamp data offset =
     (if int (length data) - offset < accelerometer_DATA_LENGTH_BYTES
      then raise BlueSTInvalidDataException
      else
        and_then (call_bytes_to_int16 data offset) (\<lambda>x.
        and_then (call_bytes_to_int16 data (offset + 2)) (\<lambda>y.
        and_then (call_bytes_to_int16 data (offset + 4)) (\<lambda>z.
        and_then (lift (Sample [PyInt x, PyInt y, PyInt z]
                          accelerometer_fields_description timestamp)) (\<lambda>sample.
        succeed (ExtractedData sample accelerometer_DATA_LENGTH_BYTES))))))"

definition get_accelerometer_x :: "sample option \<Rightarrow> error + py_float" where
  "get_accelerometer_x sample =
     (case sample of
        None \<Rightarrow> Inr NaN
      | Some s \<Rightarrow>
          (case s_data s of
             None \<Rightarrow> Inr NaN
           | Some xs \<Rightarrow>
               if xs = [] then Inr NaN
               else (case getitem xs X_INDEX of
                       Inl e \<Rightarrow> Inl e
                     | Inr v \<Rightarrow> if truthy v then py_float_of v else Inr NaN)))"

definition get_accelerometer_y :: "sample option \<Rightarrow> error + py_float" where
  "get_accelerometer_y sample =
     (case sample of
        None \<Rightarrow> Inr NaN
      | Some s \<Rightarrow>
          (case s_data s of
             None \<Rightarrow> Inr NaN
           | Some xs \<Rightarrow>
               if xs = [] then Inr NaN
               else (case getitem xs Y_INDEX of
                       Inl e \<Rightarrow> Inl e
                     | Inr v \<Rightarrow> if truthy v then py_float_of v else Inr NaN)))"

definition get_accelerometer_z :: "sample option \<Rightarrow> error + py_float" where
  "get_accelerometer_z sample =
     (case sample of
        None \<Rightarrow> Inr NaN
      | Some s \<Rightarrow>
          (case s_data s of
             None \<Rightarrow> Inr NaN
           | Some xs \<Rightarrow>
               if xs = [] then Inr NaN
               else (case getitem xs Z_INDEX of
                       Inl e \<Rightarrow> Inl e
                     | Inr v \<Rightarrow> if truthy v then py_float_of v else Inr NaN)))"

subsection \<open>FeatureHumidity\<close>

definition humidity_FEATURE_UNIT :: string where
  "humidity_FEATURE_UNIT = ''%''"

definition humidity_FEATURE_DATA_NAME :: string where
  "humidity_FEATURE_DATA_NAME = ''Humidity''"

definition humidity_FEATURE_DATA_MAX :: int where
  "humidity_FEATURE_DATA_MAX = 100"

definition humidity_FEATURE_DATA_MIN :: int where
  "humidity_FEATURE_DATA_MIN = 0"

definition humidity_DATA_LENGTH_BYTES :: int where
  "humidity_DATA_LENGTH_BYTES = 2"

definition SCALE_FACTOR :: real where
  "SCALE_FACTOR = 10"

definition FEATURE_FIELDS :: field where
  "FEATURE_FIELDS =
     \<lparr>field_name = humidity_FEATURE_DATA_NAME,
      field_unit = humidity_FEATURE_UNIT,
      field_type = Float,
      field_maximum = humidity_FEATURE_DATA_MAX,
      field_minimum = humidity_FEATURE_DATA_MIN\<rparr>"

text \<open>
  Modelled from the spec: \<open>get_fields_description()\<close>, as for the accelerometer; it
  returns the one field the humidity's constructor hands over.
\<close>

definition humidity_fields_description :: "field list" where
  "humidity_fields_description = [FEATURE_FIELDS]"

definition humidity_extract_data :: "int \<Rightarrow> byte list \<Rightarrow> int \<Rightarrow> extracted_data traced" where
  "humidity_extract_data timestamp data offset =
     (if int (length data) - offset < humidity_DATA_LENGTH_BYTES
      then raise BlueSTInvalidDataException
      else
        and_then (call_bytes_to_int16 data offset) (\<lambda>raw.
        and_then (lift (Sample [PyFloat (Finite (of_int raw / SCALE_FACTOR))]
                          humidity_fields_description timestamp)) (\<lambda>sample.
        succeed (ExtractedData sample humidity_DATA_LENGTH_BYTES))))"

definition get_humidity :: "sample option \<Rightarrow> error + py_float" where
  "get_humidity sample =
     (case sample of
        None \<Rightarrow> Inr NaN
      | Some s \<Rightarrow>
          (case s_data s of
             None \<Rightarrow> Inr NaN
           | Some xs \<Rightarrow>
               if xs = [] then Inr NaN
               else (case getitem xs 0 of
                       Inl e \<Rightarrow> Inl e
                     | Inr v \<Rightarrow> if truthy v then py_float_of v else Inr NaN)))"

subsection \<open>The two feature kinds behind the Feature interface\<close>

datatype feature_kind = FeatureAccelerometer | FeatureHumidity

fun DATA_LENGTH_BYTES :: "feature_kind \<Rightarrow> int" where
  "DATA_LENGTH_BYTES FeatureAccelerometer = accelerometer_DATA_LENGTH_BYTES"
| "DATA_LENGTH_BYTES FeatureHumidity = humidity_DATA_LENGTH_BYTES"

text \<open>The call \<open>feature._extract_data(timestamp, data, offset)\<close>, dispatched on the class.\<close>

fun extract_data :: "feature_kind \<Rightarrow> int \<Rightarrow> byte list \<Rightarrow> int \<Rightarrow> extracted_data traced" where
  "extract_data FeatureAccelerometer timestamp data offset =
     accelerometer_extract_data timestamp data offset"
| "extract_data FeatureHumidity timestamp data offset =
     humidity_extract_data timestamp data offset"

subsection \<open>BLEAdvertisingDataParser\<close>

typedecl BLEAdvertisingData

text \<open>The base class's \<open>parse\<close>: its body is a single \<open>raise\<close>.\<close>

definition parse :: "byte list \<Rightarrow> error + BLEAdvertisingData" where
  "parse advertising_data = Inl NotImplementedError"

subsection \<open>Predicates of the properties\<close>

text \<open>
  The declared range of a field, \<open>[minimum, maximum]\<close>, as a test on a decoded value.
  No function of the source applies it.
\<close>

definition within_declared_range :: "field \<Rightarrow> py_value \<Rightarrow> bool" where
  "within_declared_range f v =
     (case v of
        PyInt n \<Rightarrow> field_minimum f \<le> n \<and> n \<le> field_maximum f
      | PyFloat (Finite r) \<Rightarrow> of_int (field_minimum f) \<le> r \<and> r \<le> of_int (field_maximum f)
      | _ \<Rightarrow> False)"

text \<open>A decoded value that equals zero: the integer \<open>0\<close> or the float \<open>0.0\<close>.\<close>

definition is_zero :: "py_value \<Rightarrow> bool" where
  "is_zero v = (v = PyInt 0 \<or> v = PyFloat (Finite 0))"

section \<open>Properties\<close>

subsection \<open>The length check and the conversions\<close>

lemma bytes_to_int16_error:
  "bytes_to_int16 data start = Inl e \<Longrightarrow> e = OutOfRange"
  by (simp add: bytes_to_int16_def split: if_splits)

lemma bytes_to_int16_in_range:
  assumes "0 \<le> start" and "start + 2 \<le> int (length data)"
  shows "\<exists>v. bytes_to_int16 data start = Inr v \<and> - 32768 \<le> v \<and> v \<le> 32767"
proof -
  let ?w = "word_cat (data ! (nat start + 1)) (data ! nat start) :: 16 word"
  have "bytes_to_int16 data start = Inr (sint ?w)"
    using assms by (simp add: bytes_to_int16_def)
  moreover have "- 32768 \<le> sint ?w" using sint_ge [of ?w] by simp
  moreover have "sint ?w \<le> 32767" using sint_lt [of ?w] by simp
  ultimately show ?thesis by blast
qed

lemma accelerometer_short:
  "int (length data) - offset < accelerometer_DATA_LENGTH_BYTES \<Longrightarrow>
   accelerometer_extract_data timestamp data offset = (Inl BlueSTInvalidDataException, [])"
  by (simp add: accelerometer_extract_data_def raise_def)

lemma humidity_short:
  "int (length data) - offset < humidity_DATA_LENGTH_BYTES \<Longrightarrow>
   humidity_extract_data timestamp data offset = (Inl BlueSTInvalidDataException, [])"
  by (simp add: humidity_extract_data_def raise_def)

lemma accelerometer_not_short:
  assumes "\<not> int (length data) - offset < accelerometer_DATA_LENGTH_BYTES"
  shows "fst (accelerometer_extract_data timestamp data offset) = Inl OutOfRange
         \<or> (\<exists>s. fst (accelerometer_extract_data timestamp data offset)
                   = Inr (ExtractedData s accelerometer_DATA_LENGTH_BYTES))"
  using assms
  by (auto simp add: accelerometer_extract_data_def and_then_def call_bytes_to_int16_def
      lift_def succeed_def Sample_def accelerometer_fields_description_def
      split: sum.splits prod.splits dest: bytes_to_int16_error)

lemma humidity_not_short:
  assumes "\<not> int (length data) - offset < humidity_DATA_LENGTH_BYTES"
  shows "fst (humidity_extract_data timestamp data offset) = Inl OutOfRange
         \<or> (\<exists>s. fst (humidity_extract_data timestamp data offset)
                   = Inr (ExtractedData s humidity_DATA_LENGTH_BYTES))"
  using assms
  by (auto simp add: humidity_extract_data_def and_then_def call_bytes_to_int16_def
      lift_def succeed_def Sample_def humidity_fields_description_def
      split: sum.splits prod.splits dest: bytes_to_int16_error)

lemma extract_data_short:
  "int (length data) - offset < DATA_LENGTH_BYTES kind \<Longrightarrow>
   extract_data kind timestamp data offset = (Inl BlueSTInvalidDataException, [])"
  by (cases kind) (simp_all add: accelerometer_short humidity_short)

lemma extract_data_not_short:
  assumes "\<not> int (length data) - offset < DATA_LENGTH_BYTES kind"
  shows "fst (extract_data kind timestamp data offset) = Inl OutOfRange
         \<or> (\<exists>s. fst (extract_data kind timestamp data offset)
                   = Inr (ExtractedData s (DATA_LENGTH_BYTES kind)))"
  using assms by (cases kind) (simp_all add: accelerometer_not_short humidity_not_short)

text \<open>Once the length check has passed, the first conversion is called.\<close>

lemma extract_data_calls_not_short:
  assumes "\<not> int (length data) - offset < DATA_LENGTH_BYTES kind"
  shows "\<exists>calls. snd (extract_data kind timestamp data offset) = offset # calls"
  using assms
  by (cases kind)
     (auto simp add: accelerometer_extract_data_def humidity_extract_data_def
        and_then_def call_bytes_to_int16_def split: sum.splits prod.splits)

subsection \<open>Decoding a buffer that is long enough\<close>

text \<open>
  At an offset inside the buffer with six bytes left, the accelerometer decodes the three
  axes at the offsets \<open>offset\<close>, \<open>offset + 2\<close> and \<open>offset + 4\<close>, unscaled.
\<close>

lemma accelerometer_extract_data_in_range:
  assumes "0 \<le> offset"
    and "accelerometer_DATA_LENGTH_BYTES \<le> int (length data) - offset"
  shows "\<exists>x y z.
           bytes_to_int16 data offset = Inr x
           \<and> bytes_to_int16 data (offset + 2) = Inr y
           \<and> bytes_to_int16 data (offset + 4) = Inr z
           \<and> accelerometer_extract_data timestamp data offset
               = (Inr \<lparr>ed_sample =
                         \<lparr>s_data = Some [PyInt x, PyInt y, PyInt z],
                          s_description = accelerometer_fields_description,
                          s_timestamp = timestamp\<rparr>,
                       ed_read_bytes = 6\<rparr>,
                  [offset, offset + 2, offset + 4])"
proof -
  from assms have len: "offset + 6 \<le> int (length data)"
    by (simp add: accelerometer_DATA_LENGTH_BYTES_def)
  from assms(1) len obtain x where x: "bytes_to_int16 data offset = Inr x"
    using bytes_to_int16_in_range [of offset data] by auto
  from assms(1) len obtain y where y: "bytes_to_int16 data (offset + 2) = Inr y"
    using bytes_to_int16_in_range [of "offset + 2" data] by auto
  from assms(1) len obtain z where z: "bytes_to_int16 data (offset + 4) = Inr z"
    using bytes_to_int16_in_range [of "offset + 4" data] by auto
  have "accelerometer_extract_data timestamp data offset
          = (Inr \<lparr>ed_sample =
                    \<lparr>s_data = Some [PyInt x, PyInt y, PyInt z],
                     s_description = accelerometer_fields_description,
                     s_timestamp = timestamp\<rparr>,
                  ed_read_bytes = 6\<rparr>,
             [offset, offset + 2, offset + 4])"
    using len x y z
    by (simp add: accelerometer_extract_data_def accelerometer_DATA_LENGTH_BYTES_def
        call_bytes_to_int16_def and_then_def lift_def succeed_def Sample_def
        ExtractedData_def accelerometer_fields_description_def)
  with x y z show ?thesis by blast
qed

text \<open>
  At an offset inside the buffer with two bytes left, the humidity decodes one signed
  16-bit integer and divides it by the scale factor.
\<close>

lemma humidity_extract_data_in_range:
  assumes "0 \<le> offset"
    and "humidity_DATA_LENGTH_BYTES \<le> int (length data) - offset"
  shows "\<exists>raw.
           bytes_to_int16 data offset = Inr raw
           \<and> humidity_extract_data timestamp data offset
               = (Inr \<lparr>ed_sample =
                         \<lparr>s_data = Some [PyFloat (Finite (of_int raw / 10))],
                          s_description = humidity_fields_description,
                          s_timestamp = timestamp\<rparr>,
                       ed_read_bytes = 2\<rparr>,
                  [offset])"
proof -
  from assms have len: "offset + 2 \<le> int (length data)"
    by (simp add: humidity_DATA_LENGTH_BYTES_def)
  from assms(1) len obtain raw where raw: "bytes_to_int16 data offset = Inr raw"
    using bytes_to_int16_in_range [of offset data] by auto
  have "humidity_extract_data timestamp data offset
          = (Inr \<lparr>ed_sample =
                    \<lparr>s_data = Some [PyFloat (Finite (of_int raw / 10))],
                     s_description = humidity_fields_description,
                     s_timestamp = timestamp\<rparr>,
                  ed_read_bytes = 2\<rparr>,
             [offset])"
    using len raw
    by (simp add: humidity_extract_data_def humidity_DATA_LENGTH_BYTES_def
        call_bytes_to_int16_def and_then_def lift_def succeed_def Sample_def
        ExtractedData_def humidity_fields_description_def SCALE_FACTOR_def)
  with raw show ?thesis by blast
qed

text \<open>So the extraction does succeed whenever the offset and the length allow it.\<close>

lemma extract_data_succeeds:
  assumes "0 \<le> offset" and "DATA_LENGTH_BYTES kind \<le> int (length data) - offset"
  shows "\<exists>e. fst (extract_data kind timestamp data offset) = Inr e"
proof (cases kind)
  case FeatureAccelerometer
  with assms accelerometer_extract_data_in_range [of offset data timestamp]
  show ?thesis by auto
next
  case FeatureHumidity
  with assms humidity_extract_data_in_range [of offset data timestamp]
  show ?thesis by auto
qed

subsection \<open>The accessors\<close>

lemma getitem_in_range:
  "0 \<le> i \<Longrightarrow> i < int (length xs) \<Longrightarrow> getitem xs i = Inr (xs ! nat i)"
  by (simp add: getitem_def)

lemma getitem_beyond:
  "int (length xs) \<le> i \<Longrightarrow> getitem xs i = Inl IndexError"
  by (simp add: getitem_def)

lemma truthy_zero: "is_zero v \<Longrightarrow> \<not> truthy v"
  by (auto simp add: is_zero_def)

text \<open>
  On a non-empty list too short for the index, each accelerometer accessor raises
  \<open>IndexError\<close>.
\<close>

lemma get_accelerometer_z_short_list:
  assumes "s_data s = Some xs" and "xs \<noteq> []" and "length xs < 3"
  shows "get_accelerometer_z (Some s) = Inl IndexError"
  using assms by (simp add: get_accelerometer_z_def Z_INDEX_def getitem_beyond)

lemma get_accelerometer_y_short_list:
  assumes "s_data s = Some xs" and "xs \<noteq> []" and "length xs < 2"
  shows "get_accelerometer_y (Some s) = Inl IndexError"
  using assms by (simp add: get_accelerometer_y_def Y_INDEX_def getitem_beyond)

section \<open>The claims\<close>

text \<open>
  C1: for both feature kinds, every timestamp, every buffer and every offset,
  \<open>_extract_data\<close> raises \<open>BlueSTInvalidDataException\<close> exactly when
  \<open>len(buffer) - offset\<close> is smaller than the feature's \<open>DATA_LENGTH_BYTES\<close>. The check
  comes before every numeric conversion: no conversion call is recorded exactly when the
  check fails. In the failing case the result is the exception alone, with no call
  recorded, so that no sample is constructed and no \<open>ExtractedData\<close> is returned.
\<close>

theorem extract_data_malformed_iff:
  "(fst (extract_data kind timestamp data offset) = Inl BlueSTInvalidDataException)
     = (int (length data) - offset < DATA_LENGTH_BYTES kind)
   \<and> (snd (extract_data kind timestamp data offset) = [])
     = (int (length data) - offset < DATA_LENGTH_BYTES kind)
   \<and> (int (length data) - offset < DATA_LENGTH_BYTES kind \<longrightarrow>
        extract_data kind timestamp data offset = (Inl BlueSTInvalidDataException, [])
        \<and> (\<nexists>e. fst (extract_data kind timestamp data offset) = Inr e))"
proof (cases "int (length data) - offset < DATA_LENGTH_BYTES kind")
  case True
  then show ?thesis by (simp add: extract_data_short)
next
  case False
  from extract_data_not_short [OF False, of timestamp]
  have "fst (extract_data kind timestamp data offset) \<noteq> Inl BlueSTInvalidDataException"
    by auto
  moreover from extract_data_calls_not_short [OF False, of timestamp]
  have "snd (extract_data kind timestamp data offset) \<noteq> []"
    by auto
  ultimately show ?thesis using False by simp
qed

theorem extract_data_malformed_iff_witness:
  "int (length [0xF4 :: byte]) - 0 < DATA_LENGTH_BYTES FeatureHumidity
   \<and> extract_data FeatureHumidity 0 [0xF4] 0 = (Inl BlueSTInvalidDataException, [])
   \<and> (\<nexists>e. fst (extract_data FeatureHumidity 0 [0xF4] 0) = Inr e)"
proof -
  have short: "int (length [0xF4 :: byte]) - 0 < DATA_LENGTH_BYTES FeatureHumidity"
    by (simp add: humidity_DATA_LENGTH_BYTES_def)
  with extract_data_malformed_iff [of FeatureHumidity 0 "[0xF4]" 0] show ?thesis
    by blast
qed

text \<open>
  C2: the accelerometer's \<open>_extract_data\<close> on the buffer
  \<open>[0x10,0x00, 0x20,0x00, 0xF0,0xFF]\<close> at offset 0, with any timestamp, succeeds; the
  sample holds the three integers 16, 32 and -16, each read as a little-endian signed
  16-bit integer at the offsets 0, 2 and 4 and not scaled, and the number of bytes read
  is 6.
\<close>

theorem accelerometer_extract_data_scenario:
  "accelerometer_extract_data timestamp [0x10, 0x00, 0x20, 0x00, 0xF0, 0xFF] 0
     = (Inr \<lparr>ed_sample =
               \<lparr>s_data = Some [PyInt 16, PyInt 32, PyInt (- 16)],
                s_description = [FEATURE_X_FIELD, FEATURE_Y_FIELD, FEATURE_Z_FIELD],
                s_timestamp = timestamp\<rparr>,
             ed_read_bytes = 6\<rparr>,
        [0, 2, 4])"
  by (simp add: accelerometer_extract_data_def accelerometer_DATA_LENGTH_BYTES_def
      call_bytes_to_int16_def bytes_to_int16_def and_then_def lift_def succeed_def
      Sample_def ExtractedData_def accelerometer_fields_description_def word_cat_eq)

text \<open>
  C3: the humidity's \<open>_extract_data\<close> on the buffer \<open>[0xF4,0x01]\<close> at offset 0, with any
  timestamp, succeeds; the sample holds the single value 50.0, which is the little-endian
  signed 16-bit integer \<open>0x01F4 = 500\<close> divided by the scale factor 10.0, and the number
  of bytes read is 2.
\<close>

theorem humidity_extract_data_scenario:
  "humidity_extract_data timestamp [0xF4, 0x01] 0
     = (Inr \<lparr>ed_sample =
               \<lparr>s_data = Some [PyFloat (Finite 50)],
                s_description = [FEATURE_FIELDS],
                s_timestamp = timestamp\<rparr>,
             ed_read_bytes = 2\<rparr>,
        [0])
   \<and> bytes_to_int16 [0xF4, 0x01] 0 = Inr 500
   \<and> 500 / SCALE_FACTOR = 50"
proof -
  have raw: "bytes_to_int16 [0xF4, 0x01] 0 = Inr 500"
    by (simp add: bytes_to_int16_def word_cat_eq)
  have scaled: "500 / SCALE_FACTOR = 50"
    by (simp add: SCALE_FACTOR_def)
  have "humidity_extract_data timestamp [0xF4, 0x01] 0
     = (Inr \<lparr>ed_sample =
               \<lparr>s_data = Some [PyFloat (Finite 50)],
                s_description = [FEATURE_FIELDS],
                s_timestamp = timestamp\<rparr>,
             ed_read_bytes = 2\<rparr>,
        [0])"
    using raw scaled
    by (simp add: humidity_extract_data_def humidity_DATA_LENGTH_BYTES_def
        call_bytes_to_int16_def and_then_def lift_def succeed_def
        Sample_def ExtractedData_def humidity_fields_description_def)
  with raw scaled show ?thesis by simp
qed

text \<open>
  C4: whenever \<open>_extract_data\<close> succeeds at an offset \<open>\<ge> 0\<close>, the number of bytes read in
  the returned \<open>ExtractedData\<close> is the feature's constant \<open>DATA_LENGTH_BYTES\<close> (6 for the
  accelerometer, 2 for the humidity), whatever the buffer holds beyond them, and it does
  not exceed \<open>len(buffer) - offset\<close>, the bytes available to the decoder.
\<close>

theorem extract_data_read_bytes:
  assumes "0 \<le> offset"
    and "fst (extract_data kind timestamp data offset) = Inr e"
  shows "ed_read_bytes e = DATA_LENGTH_BYTES kind
         \<and> DATA_LENGTH_BYTES kind = (case kind of FeatureAccelerometer \<Rightarrow> 6 | FeatureHumidity \<Rightarrow> 2)
         \<and> ed_read_bytes e \<le> int (length data) - offset"
proof -
  have long: "\<not> int (length data) - offset < DATA_LENGTH_BYTES kind"
    using assms(2) extract_data_short [of data offset kind timestamp] by auto
  from extract_data_not_short [OF long, of timestamp] assms(2)
  have "ed_read_bytes e = DATA_LENGTH_BYTES kind"
    by (auto simp add: ExtractedData_def)
  moreover have "DATA_LENGTH_BYTES kind
                   = (case kind of FeatureAccelerometer \<Rightarrow> 6 | FeatureHumidity \<Rightarrow> 2)"
    by (cases kind)
       (simp_all add: accelerometer_DATA_LENGTH_BYTES_def humidity_DATA_LENGTH_BYTES_def)
  ultimately show ?thesis using long by simp
qed

theorem extract_data_read_bytes_witness:
  "(0 :: int) \<le> 1
   \<and> fst (extract_data FeatureAccelerometer 7
            [0xAA, 0x10, 0x00, 0x20, 0x00, 0xF0, 0xFF, 0xBB, 0xCC] 1)
       = Inr \<lparr>ed_sample =
               \<lparr>s_data = Some [PyInt 16, PyInt 32, PyInt (- 16)],
                s_description = [FEATURE_X_FIELD, FEATURE_Y_FIELD, FEATURE_Z_FIELD],
                s_timestamp = 7\<rparr>,
              ed_read_bytes = 6\<rparr>
   \<and> (6 :: int) \<le> int (length [0xAA, 0x10, 0x00, 0x20, 0x00, 0xF0, 0xFF, 0xBB, 0xCC :: byte]) - 1"
proof -
  have ok: "fst (extract_data FeatureAccelerometer 7
                   [0xAA, 0x10, 0x00, 0x20, 0x00, 0xF0, 0xFF, 0xBB, 0xCC] 1)
              = Inr \<lparr>ed_sample =
                      \<lparr>s_data = Some [PyInt 16, PyInt 32, PyInt (- 16)],
                       s_description = [FEATURE_X_FIELD, FEATURE_Y_FIELD, FEATURE_Z_FIELD],
                       s_timestamp = 7\<rparr>,
                     ed_read_bytes = 6\<rparr>"
    by (simp add: accelerometer_extract_data_def accelerometer_DATA_LENGTH_BYTES_def
        call_bytes_to_int16_def bytes_to_int16_def and_then_def lift_def succeed_def
        Sample_def ExtractedData_def accelerometer_fields_description_def word_cat_eq)
  from extract_data_read_bytes [OF _ ok] ok show ?thesis
    by simp
qed

text \<open>
  C5: each per-channel accessor (\<open>get_accelerometer_x\<close>, \<open>get_accelerometer_y\<close>,
  \<open>get_accelerometer_z\<close>, \<open>get_humidity\<close>) returns not-a-number, and raises nothing, when
  the sample is absent, or when the sample's value list is absent or empty.
\<close>

theorem accessors_nan_when_absent:
  assumes "sample = None
           \<or> (\<exists>s. sample = Some s \<and> (s_data s = None \<or> s_data s = Some []))"
  shows "get_accelerometer_x sample = Inr NaN
         \<and> get_accelerometer_y sample = Inr NaN
         \<and> get_accelerometer_z sample = Inr NaN
         \<and> get_humidity sample = Inr NaN"
  using assms
proof (elim disjE exE conjE)
  assume "sample = None"
  then show ?thesis
    by (simp add: get_accelerometer_x_def get_accelerometer_y_def get_accelerometer_z_def
        get_humidity_def)
next
  fix s assume "sample = Some s" and "s_data s = None"
  then show ?thesis
    by (simp add: get_accelerometer_x_def get_accelerometer_y_def get_accelerometer_z_def
        get_humidity_def)
next
  fix s assume "sample = Some s" and "s_data s = Some []"
  then show ?thesis
    by (simp add: get_accelerometer_x_def get_accelerometer_y_def get_accelerometer_z_def
        get_humidity_def)
qed

theorem accessors_nan_when_absent_witness:
  "(get_accelerometer_x None = Inr NaN \<and> get_accelerometer_y None = Inr NaN
    \<and> get_accelerometer_z None = Inr NaN \<and> get_humidity None = Inr NaN)
   \<and> (get_accelerometer_x (Some \<lparr>s_data = None, s_description = [], s_timestamp = 0\<rparr>) = Inr NaN
    \<and> get_accelerometer_y (Some \<lparr>s_data = None, s_description = [], s_timestamp = 0\<rparr>) = Inr NaN
    \<and> get_accelerometer_z (Some \<lparr>s_data = None, s_description = [], s_timestamp = 0\<rparr>) = Inr NaN
    \<and> get_humidity (Some \<lparr>s_data = None, s_description = [], s_timestamp = 0\<rparr>) = Inr NaN)
   \<and> (get_accelerometer_x (Some \<lparr>s_data = Some [], s_description = [], s_timestamp = 0\<rparr>) = Inr NaN
    \<and> get_accelerometer_y (Some \<lparr>s_data = Some [], s_description = [], s_timestamp = 0\<rparr>) = Inr NaN
    \<and> get_accelerometer_z (Some \<lparr>s_data = Some [], s_description = [], s_timestamp = 0\<rparr>) = Inr NaN
    \<and> get_humidity (Some \<lparr>s_data = Some [], s_description = [], s_timestamp = 0\<rparr>) = Inr NaN)"
proof (intro conjI)
  let ?none = "None :: sample option"
  let ?no_list = "Some \<lparr>s_data = None, s_description = [], s_timestamp = 0\<rparr>"
  let ?empty = "Some \<lparr>s_data = Some [], s_description = [], s_timestamp = 0\<rparr>"
  have a: "?none = None
           \<or> (\<exists>s. ?none = Some s \<and> (s_data s = None \<or> s_data s = Some []))"
    by simp
  have b: "?no_list = None
           \<or> (\<exists>s. ?no_list = Some s \<and> (s_data s = None \<or> s_data s = Some []))"
    by simp
  have c: "?empty = None
           \<or> (\<exists>s. ?empty = Some s \<and> (s_data s = None \<or> s_data s = Some []))"
    by simp
  note at_none = accessors_nan_when_absent [OF a]
  note at_no_list = accessors_nan_when_absent [OF b]
  note at_empty = accessors_nan_when_absent [OF c]
  show "get_accelerometer_x None = Inr NaN" using at_none by blast
  show "get_accelerometer_y None = Inr NaN" using at_none by blast
  show "get_accelerometer_z None = Inr NaN" using at_none by blast
  show "get_humidity None = Inr NaN" using at_none by blast
  show "get_accelerometer_x ?no_list = Inr NaN" using at_no_list by blast
  show "get_accelerometer_y ?no_list = Inr NaN" using at_no_list by blast
  show "get_accelerometer_z ?no_list = Inr NaN" using at_no_list by blast
  show "get_humidity ?no_list = Inr NaN" using at_no_list by blast
  show "get_accelerometer_x ?empty = Inr NaN" using at_empty by blast
  show "get_accelerometer_y ?empty = Inr NaN" using at_empty by blast
  show "get_accelerometer_z ?empty = Inr NaN" using at_empty by blast
  show "get_humidity ?empty = Inr NaN" using at_empty by blast
qed

text \<open>
  C6: on a sample whose value list has the expected length (3 for the accelerometer, 1
  for the humidity) and whose value at the accessed index equals zero, the accessor
  returns not-a-number and not the zero: it tests the truth value of
  \<open>sample._data[index]\<close> before it returns it.
\<close>

theorem accessors_nan_when_zero:
  assumes "s_data s = Some xs"
  shows "(length xs = 3 \<and> is_zero (xs ! 0) \<longrightarrow> get_accelerometer_x (Some s) = Inr NaN)
         \<and> (length xs = 3 \<and> is_zero (xs ! 1) \<longrightarrow> get_accelerometer_y (Some s) = Inr NaN)
         \<and> (length xs = 3 \<and> is_zero (xs ! 2) \<longrightarrow> get_accelerometer_z (Some s) = Inr NaN)
         \<and> (length xs = 1 \<and> is_zero (xs ! 0) \<longrightarrow> get_humidity (Some s) = Inr NaN)"
proof (intro conjI impI)
  assume "length xs = 3 \<and> is_zero (xs ! 0)"
  with assms show "get_accelerometer_x (Some s) = Inr NaN"
    by (auto simp add: get_accelerometer_x_def X_INDEX_def getitem_in_range truthy_zero)
next
  assume "length xs = 3 \<and> is_zero (xs ! 1)"
  with assms show "get_accelerometer_y (Some s) = Inr NaN"
    by (auto simp add: get_accelerometer_y_def Y_INDEX_def getitem_in_range truthy_zero)
next
  assume "length xs = 3 \<and> is_zero (xs ! 2)"
  with assms show "get_accelerometer_z (Some s) = Inr NaN"
    by (auto simp add: get_accelerometer_z_def Z_INDEX_def getitem_in_range truthy_zero)
next
  assume "length xs = 1 \<and> is_zero (xs ! 0)"
  with assms show "get_humidity (Some s) = Inr NaN"
    by (auto simp add: get_humidity_def getitem_in_range truthy_zero)
qed

theorem accessors_nan_when_zero_witness:
  "get_accelerometer_x
     (Some \<lparr>s_data = Some [PyInt 0, PyInt 0, PyInt 0],
            s_description = accelerometer_fields_description, s_timestamp = 0\<rparr>) = Inr NaN
   \<and> get_accelerometer_y
     (Some \<lparr>s_data = Some [PyInt 0, PyInt 0, PyInt 0],
            s_description = accelerometer_fields_description, s_timestamp = 0\<rparr>) = Inr NaN
   \<and> get_accelerometer_z
     (Some \<lparr>s_data = Some [PyInt 0, PyInt 0, PyInt 0],
            s_description = accelerometer_fields_description, s_timestamp = 0\<rparr>) = Inr NaN
   \<and> get_humidity
     (Some \<lparr>s_data = Some [PyFloat (Finite 0)],
            s_description = humidity_fields_description, s_timestamp = 0\<rparr>) = Inr NaN"
proof -
  let ?acc = "\<lparr>s_data = Some [PyInt 0, PyInt 0, PyInt 0],
               s_description = accelerometer_fields_description, s_timestamp = 0\<rparr>"
  let ?hum = "\<lparr>s_data = Some [PyFloat (Finite 0)],
               s_description = humidity_fields_description, s_timestamp = 0\<rparr>"
  have acc: "s_data ?acc = Some [PyInt 0, PyInt 0, PyInt 0]" by simp
  have hum: "s_data ?hum = Some [PyFloat (Finite 0)]" by simp
  from accessors_nan_when_zero [OF acc] accessors_nan_when_zero [OF hum]
  show ?thesis by (simp add: is_zero_def)
qed

text \<open>
  C7: for both feature kinds, at every offset \<open>\<ge> 0\<close> with
  \<open>len(buffer) - offset < DATA_LENGTH_BYTES - 1\<close>, \<open>_extract_data\<close> fails with
  \<open>BlueSTInvalidDataException\<close>; no numeric conversion is called and no sample is
  produced.
\<close>

theorem extract_data_too_short:
  assumes "0 \<le> offset"
    and "int (length data) - offset < DATA_LENGTH_BYTES kind - 1"
  shows "extract_data kind timestamp data offset = (Inl BlueSTInvalidDataException, [])
         \<and> (\<nexists>e. fst (extract_data kind timestamp data offset) = Inr e)"
proof -
  from assms(2) have "int (length data) - offset < DATA_LENGTH_BYTES kind" by simp
  then show ?thesis by (simp add: extract_data_short)
qed

theorem extract_data_too_short_witness:
  "(0 :: int) \<le> 0
   \<and> int (length [0x10, 0x00, 0x20, 0x00 :: byte]) - 0 < DATA_LENGTH_BYTES FeatureAccelerometer - 1
   \<and> extract_data FeatureAccelerometer 0 [0x10, 0x00, 0x20, 0x00] 0
       = (Inl BlueSTInvalidDataException, [])"
proof -
  have short: "int (length [0x10, 0x00, 0x20, 0x00 :: byte]) - 0
                 < DATA_LENGTH_BYTES FeatureAccelerometer - 1"
    by (simp add: accelerometer_DATA_LENGTH_BYTES_def)
  from extract_data_too_short [OF _ short, of 0] short show ?thesis
    by simp
qed

text \<open>
  C8: decoding does not clamp to the declared range of a field. The humidity, declared
  in \<open>[0, 100]\<close>, decodes the buffer \<open>[0x00,0x80]\<close> (the integer -32768) to -3276.8; the
  accelerometer, declared in \<open>[-2000, 2000]\<close>, decodes
  \<open>[0xFF,0x7F, 0x00,0x80, 0xD1,0x07]\<close> to 32767, -32768 and 2001. Each of these values
  lies strictly outside its field's range.
\<close>

theorem decode_not_clamped:
  "humidity_extract_data timestamp [0x00, 0x80] 0
     = (Inr \<lparr>ed_sample =
               \<lparr>s_data = Some [PyFloat (Finite (- 3276.8))],
                s_description = [FEATURE_FIELDS],
                s_timestamp = timestamp\<rparr>,
             ed_read_bytes = 2\<rparr>,
        [0])
   \<and> field_minimum FEATURE_FIELDS = 0 \<and> field_maximum FEATURE_FIELDS = 100
   \<and> \<not> within_declared_range FEATURE_FIELDS (PyFloat (Finite (- 3276.8)))
   \<and> accelerometer_extract_data timestamp [0xFF, 0x7F, 0x00, 0x80, 0xD1, 0x07] 0
     = (Inr \<lparr>ed_sample =
               \<lparr>s_data = Some [PyInt 32767, PyInt (- 32768), PyInt 2001],
                s_description = [FEATURE_X_FIELD, FEATURE_Y_FIELD, FEATURE_Z_FIELD],
                s_timestamp = timestamp\<rparr>,
             ed_read_bytes = 6\<rparr>,
        [0, 2, 4])
   \<and> field_minimum FEATURE_X_FIELD = - 2000 \<and> field_maximum FEATURE_X_FIELD = 2000
   \<and> field_minimum FEATURE_Y_FIELD = - 2000 \<and> field_maximum FEATURE_Y_FIELD = 2000
   \<and> field_minimum FEATURE_Z_FIELD = - 2000 \<and> field_maximum FEATURE_Z_FIELD = 2000
   \<and> \<not> within_declared_range FEATURE_X_FIELD (PyInt 32767)
   \<and> \<not> within_declared_range FEATURE_Y_FIELD (PyInt (- 32768))
   \<and> \<not> within_declared_range FEATURE_Z_FIELD (PyInt 2001)"
proof -
  have hum: "humidity_extract_data timestamp [0x00, 0x80] 0
     = (Inr \<lparr>ed_sample =
               \<lparr>s_data = Some [PyFloat (Finite (- 3276.8))],
                s_description = [FEATURE_FIELDS],
                s_timestamp = timestamp\<rparr>,
             ed_read_bytes = 2\<rparr>,
        [0])"
    by (simp add: humidity_extract_data_def humidity_DATA_LENGTH_BYTES_def
        call_bytes_to_int16_def bytes_to_int16_def and_then_def lift_def succeed_def
        Sample_def ExtractedData_def humidity_fields_description_def SCALE_FACTOR_def
        word_cat_eq)
  have acc: "accelerometer_extract_data timestamp [0xFF, 0x7F, 0x00, 0x80, 0xD1, 0x07] 0
     = (Inr \<lparr>ed_sample =
               \<lparr>s_data = Some [PyInt 32767, PyInt (- 32768), PyInt 2001],
                s_description = [FEATURE_X_FIELD, FEATURE_Y_FIELD, FEATURE_Z_FIELD],
                s_timestamp = timestamp\<rparr>,
             ed_read_bytes = 6\<rparr>,
        [0, 2, 4])"
    by (simp add: accelerometer_extract_data_def accelerometer_DATA_LENGTH_BYTES_def
        call_bytes_to_int16_def bytes_to_int16_def and_then_def lift_def succeed_def
        Sample_def ExtractedData_def accelerometer_fields_description_def word_cat_eq)
  have hum_range: "field_minimum FEATURE_FIELDS = 0 \<and> field_maximum FEATURE_FIELDS = 100"
    by (simp add: FEATURE_FIELDS_def humidity_FEATURE_DATA_MIN_def
        humidity_FEATURE_DATA_MAX_def)
  have acc_range:
    "field_minimum FEATURE_X_FIELD = - 2000 \<and> field_maximum FEATURE_X_FIELD = 2000
     \<and> field_minimum FEATURE_Y_FIELD = - 2000 \<and> field_maximum FEATURE_Y_FIELD = 2000
     \<and> field_minimum FEATURE_Z_FIELD = - 2000 \<and> field_maximum FEATURE_Z_FIELD = 2000"
    by (simp add: FEATURE_X_FIELD_def FEATURE_Y_FIELD_def FEATURE_Z_FIELD_def
        accelerometer_FEATURE_DATA_MIN_def accelerometer_FEATURE_DATA_MAX_def)
  have outside:
    "\<not> within_declared_range FEATURE_FIELDS (PyFloat (Finite (- 3276.8)))
     \<and> \<not> within_declared_range FEATURE_X_FIELD (PyInt 32767)
     \<and> \<not> within_declared_range FEATURE_Y_FIELD (PyInt (- 32768))
     \<and> \<not> within_declared_range FEATURE_Z_FIELD (PyInt 2001)"
    using hum_range acc_range by (simp add: within_declared_range_def)
  from hum acc hum_range acc_range outside show ?thesis by simp
qed

text \<open>
  C9: the accelerometer's accessors are not total. There is a sample whose value list is
  not empty and shorter than 3 (it has one element) on which \<open>get_accelerometer_z\<close>
  raises \<open>IndexError\<close> and does not return not-a-number: the truth value of the list
  says nothing about index 2. On the same sample \<open>get_accelerometer_x\<close> returns the
  value.
\<close>

theorem accessor_z_index_error:
  "\<exists>s xs. s_data s = Some xs \<and> xs \<noteq> [] \<and> length xs < 3
          \<and> get_accelerometer_z (Some s) = Inl IndexError
          \<and> get_accelerometer_z (Some s) \<noteq> Inr NaN
          \<and> get_accelerometer_x (Some s) = Inr (Finite 5)"
proof (intro exI conjI)
  let ?s = "\<lparr>s_data = Some [PyInt 5], s_description = [FEATURE_X_FIELD], s_timestamp = 0\<rparr>"
  show "s_data ?s = Some [PyInt 5]" by simp
  show "[PyInt 5] \<noteq> []" by simp
  show "length [PyInt 5] < 3" by simp
  show z: "get_accelerometer_z (Some ?s) = Inl IndexError"
    by (rule get_accelerometer_z_short_list [of _ "[PyInt 5]"]) simp_all
  show "get_accelerometer_z (Some ?s) \<noteq> Inr NaN"
    by (simp add: z)
  show "get_accelerometer_x (Some ?s) = Inr (Finite 5)"
    by (simp add: get_accelerometer_x_def X_INDEX_def getitem_def)
qed

text \<open>
  C10: the base class's \<open>parse\<close> raises \<open>NotImplementedError\<close> on every advertising data
  buffer: it returns no advertising data and raises no malformed-advertisement error.
\<close>

theorem parse_not_implemented:
  "parse advertising_data = Inl NotImplementedError
   \<and> (\<nexists>r. parse advertising_data = Inr r)
   \<and> parse advertising_data \<noteq> Inl MalformedAdvertisement"
  by (simp add: parse_def)

end
